theory Spec2Isabelle
  imports Complex_Main
begin

chapter \<open>The canvas graph engine of the CBAM process manager\<close>

text \<open>
  A shallow embedding of the parts of the front end that keep one node/edge graph per
  installation, build process and group nodes, create edges through the backend, and
  choose an edge routing strategy. Every definition follows one source function, named
  in the text before it. React state is passed explicitly: a handler takes the state of
  the render it closes over and returns the state after its updates have been applied.
  \<open>Date.now()\<close> and \<open>Math.random()\<close> are parameters of the functions that call them.
  Identifiers and type tags are ASCII and are strings of characters; text a user
  enters (names, labels) is a list of UTF-16 code units. Coordinates are JavaScript
  numbers: a finite double is the real number it denotes, and every arithmetic
  operation on coordinates rounds its exact result to the nearest double.
\<close>

section \<open>Strings\<close>

definition digits :: string where
  "digits = ''0123456789''"

definition is_digit :: "char \<Rightarrow> bool" where
  \<comment> \<open>the class \<open>\d\<close> of a JavaScript regular expression without the unicode flag\<close>
  "is_digit c = (c \<in> set digits)"

definition digit_val :: "char \<Rightarrow> nat" where
  \<comment> \<open>the place of a digit in \<open>digits\<close>\<close>
  "digit_val c = length (takeWhile (\<lambda>d. d \<noteq> c) digits)"

definition digit_char :: "nat \<Rightarrow> char" where
  \<comment> \<open>the digit at a place below 10\<close>
  "digit_char d = digits ! d"

text \<open>
  \<open>parseInt\<close> on a string of decimal digits (the only strings the decoder passes to
  it). The value is exact here; JavaScript rounds above \<open>2^53\<close>.
\<close>

definition parseInt :: "string \<Rightarrow> int" where
  "parseInt ds = int (foldl (\<lambda>a c. 10 * a + digit_val c) 0 ds)"

fun string_of_nat :: "nat \<Rightarrow> string" where
  "string_of_nat n =
     (if n < 10 then [digit_char n] else string_of_nat (n div 10) @ [digit_char (n mod 10)])"

definition string_of_int :: "int \<Rightarrow> string" where
  \<comment> \<open>the template literal \<open>`${n}`\<close> of an integer\<close>
  "string_of_int i = (if i < 0 then CHR ''-'' # string_of_nat (nat (- i)) else string_of_nat (nat i))"

fun strip_prefix :: "string \<Rightarrow> string \<Rightarrow> string option" where
  "strip_prefix [] s = Some s"
| "strip_prefix (p # ps) [] = None"
| "strip_prefix (p # ps) (c # cs) = (if p = c then strip_prefix ps cs else None)"

text \<open>
  A string that may hold any text is the list of its UTF-16 code units; \<open>ascii\<close> is such a
  string written with ASCII characters.
\<close>

type_synonym ustring = "nat list"

definition ascii :: "string \<Rightarrow> ustring" where
  "ascii s = map of_char s"

fun join :: "'a list \<Rightarrow> 'a list list \<Rightarrow> 'a list" where
  \<comment> \<open>\<open>Array.prototype.join\<close>\<close>
  "join sep [] = []"
| "join sep [a] = a"
| "join sep (a # b # bs) = a @ sep @ join sep (b # bs)"

definition is_white_space :: "nat \<Rightarrow> bool" where
  \<comment> \<open>the code units \<open>String.prototype.trim\<close> removes: the white space and the line
      terminators of ECMAScript (tab, line feed, vertical tab, form feed, carriage
      return, space, no-break space, the Unicode space separators, line and paragraph
      separator, byte order mark)\<close>
  "is_white_space c =
     (c \<in> set [0x09, 0x0A, 0x0B, 0x0C, 0x0D, 0x20, 0xA0, 0x1680, 0x2028, 0x2029, 0x202F,
                0x205F, 0x3000, 0xFEFF]
      \<or> (0x2000 \<le> c \<and> c \<le> 0x200A))"

definition trim :: "ustring \<Rightarrow> ustring" where
  "trim s = rev (dropWhile is_white_space (rev (dropWhile is_white_space s)))"

section \<open>Numbers\<close>

text \<open>
  A JavaScript number is an IEEE 754 double. The model covers the finite doubles, each
  taken as the real number it denotes; infinities, NaN and the sign of zero are not
  values of the model. \<open>round_to_double\<close> is rounding to nearest, ties to even: a real
  with \<open>2^e \<le> |x| < 2^(e+1)\<close> is rounded to a multiple of \<open>2^(e-52)\<close>, or of \<open>2^(-1074)\<close> in the
  subnormal range. It is the result of the hardware operation as long as the rounded
  value is below \<open>2^1024\<close> in magnitude; beyond that the hardware gives an infinity, which
  no coordinate of a canvas comes near. The arithmetic operators of the language compute
  the exact result and round it.
\<close>

definition round_half_even :: "real \<Rightarrow> int" where
  "round_half_even x =
     (let n = \<lfloor>x\<rfloor>; d = x - of_int n
      in if d < 1 / 2 then n else if 1 / 2 < d then n + 1 else if even n then n else n + 1)"

definition exponent :: "real \<Rightarrow> int" where
  "exponent x = \<lfloor>log 2 \<bar>x\<bar>\<rfloor>"

definition ulp_exponent :: "real \<Rightarrow> int" where
  "ulp_exponent x = max (exponent x - 52) (- 1074)"

definition round_to_double :: "real \<Rightarrow> real" where
  "round_to_double x =
     (if x = 0 then 0
      else of_int (round_half_even (x / 2 powr of_int (ulp_exponent x)))
           * 2 powr of_int (ulp_exponent x))"

definition is_double :: "real \<Rightarrow> bool" where
  "is_double x = (round_to_double x = x)"

definition js_add :: "real \<Rightarrow> real \<Rightarrow> real" where
  "js_add a b = round_to_double (a + b)"

definition js_sub :: "real \<Rightarrow> real \<Rightarrow> real" where
  "js_sub a b = round_to_double (a - b)"

definition js_mul :: "real \<Rightarrow> real \<Rightarrow> real" where
  "js_mul a b = round_to_double (a * b)"

section \<open>Decoding node identifiers (useProcessCanvas.ts, extractNodeId)\<close>

text \<open>
  \<^verbatim>\<open>nodeId.match(/(?:product|process|group)-(\d+)/)\<close>: the pattern is not anchored, so
  the match is the leftmost position at which one of the three words, a hyphen and at
  least one digit follow each other; the group captures the longest run of digits.
  \<open>match_alternatives\<close> tries the words in the order of the pattern at one position,
  \<open>regex_match\<close> moves through the positions of the string.
\<close>

fun match_alternatives :: "string list \<Rightarrow> string \<Rightarrow> string option" where
  "match_alternatives [] s = None"
| "match_alternatives (w # ws) s =
     (case strip_prefix (w @ ''-'') s of
        None \<Rightarrow> match_alternatives ws s
      | Some rest \<Rightarrow>
          (if takeWhile is_digit rest = [] then match_alternatives ws s
           else Some (takeWhile is_digit rest)))"

definition match_here :: "string \<Rightarrow> string option" where
  "match_here s = match_alternatives [''product'', ''process'', ''group''] s"

fun regex_match :: "string \<Rightarrow> string option" where
  "regex_match [] = match_here []"
| "regex_match (c # cs) =
     (case match_here (c # cs) of Some ds \<Rightarrow> Some ds | None \<Rightarrow> regex_match cs)"

definition extractNodeId :: "string \<Rightarrow> int" where
  \<comment> \<open>\<^verbatim>\<open>return match ? parseInt(match[1]) : 0\<close>\<close>
  "extractNodeId nodeId = (case regex_match nodeId of Some ds \<Rightarrow> parseInt ds | None \<Rightarrow> 0)"

section \<open>Entities and graph elements\<close>

text \<open>
  The backend entities, with the fields the canvas reads. \<open>process.products\<close> is the
  embedded list of linked products; the code tests it for presence before each use, so
  it is an option.
\<close>

record product =
  product_id :: int
  product_install_id :: int
  product_name :: ustring

record process =
  process_id :: int
  process_name :: ustring
  process_products :: "product list option"

text \<open>
  A React Flow node. \<open>data\<close> carries the payload of every kind of node: the fields a
  kind does not set are \<open>None\<close> or empty (JavaScript \<open>undefined\<close>). \<open>is_readonly\<close> is the value
  of \<^verbatim>\<open>process.products && process.products.some(...)\<close>, which is \<open>undefined\<close> when
  the process has no product list. \<open>data_type\<close>, \<open>boundaryType\<close> and \<open>data_nodes\<close>
  (the member list, \<open>data.nodes\<close>) are the payload of a group. Left out of the payload
  are the fields no function of the model reads: the description text, the embedded
  process record, the constant flags and sizes, and the click callbacks.
\<close>

record node_data =
  data_id :: "int option"
  label :: ustring
  variant :: "string option"
  product_names :: "ustring option"
  install_id :: "int option"
  current_install_id :: "int option"
  is_readonly :: "bool option"
  related_products :: "product list"
  productData :: "product option"
  data_type :: "string option"
  boundaryType :: "string option"
  data_nodes :: "string list option"

record node =
  node_id :: string
  node_type :: string
  position_x :: real
  position_y :: real
  style_width :: "real option"
  style_height :: "real option"
  data :: node_data

text \<open>
  A React Flow edge. The routing hook writes \<open>routingType\<close>, \<open>avoidNodes\<close>,
  \<open>smoothness\<close>, \<open>stepSize\<close> and \<open>gridSnap\<close> into \<open>data\<close>; \<open>edgeData\<close> is the identifier
  of the backend record an edge was created from.
\<close>

record edge_data =
  edgeData :: "int option"
  routingType :: "string option"
  avoidNodes :: "bool option"
  smoothness :: "real option"
  stepSize :: "real option"
  gridSnap :: "bool option"

record edge =
  edge_id :: string
  edge_source :: string
  edge_target :: string
  edge_type :: "string option"
  edge_data :: edge_data

definition no_edge_data :: edge_data where
  "no_edge_data = \<lparr>edgeData = None, routingType = None, avoidNodes = None,
     smoothness = None, stepSize = None, gridSnap = None\<rparr>"

section \<open>Creating an edge (useProcessCanvas.ts, handleEdgeCreate)\<close>

text \<open>
  The connection a gesture produces; React Flow types both ends as \<open>string | null\<close>.
  The request body, and what \<open>axiosClient.post\<close> does with it: it resolves with a status
  and the created record (of which the model keeps the identifier), or it rejects with
  an error carrying the status of the response (if one arrived) and an error code. The
  backend is a parameter of the handler.
\<close>

record connection =
  conn_source :: "string option"
  conn_target :: "string option"

record edge_request =
  source_id :: int
  target_id :: int
  edge_kind :: string

datatype axios_result =
    Resolved nat int
  | Rejected "nat option" "string option"

datatype edge_log =
    InvalidNodeId
  | ServerError
  | BadRequest
  | NetworkError
  | UnknownError

text \<open>
  What one call of the handler leaves behind: the live edge collection and the
  \<open>prevEdgesRef\<close> mirror, the requests it sent, what it wrote to the error console, and
  whether it ran the \<open>updateProcessChainsAfterEdge\<close> callback.
\<close>

record edge_outcome =
  out_edges :: "edge list"
  out_prevEdgesRef :: "edge list"
  out_requests :: "edge_request list"
  out_log :: "edge_log option"
  out_callback :: bool

definition catch_log :: "nat option \<Rightarrow> string option \<Rightarrow> edge_log" where
  \<comment> \<open>the \<open>catch\<close> block: it classifies the error and changes no state\<close>
  "catch_log status code =
     (if status = Some 500 then ServerError
      else if status = Some 400 then BadRequest
      else if code = Some ''NETWORK_ERROR'' then NetworkError
      else UnknownError)"

definition handleEdgeCreate ::
  "(edge_request \<Rightarrow> axios_result) \<Rightarrow> connection \<Rightarrow> bool \<Rightarrow> edge list \<Rightarrow> edge list
     \<Rightarrow> edge_outcome" where
  "handleEdgeCreate post params updateProcessChainsAfterEdge edges prevEdgesRef =
     (let unchanged = \<lparr>out_edges = edges, out_prevEdgesRef = prevEdgesRef, out_requests = [],
                        out_log = None, out_callback = False\<rparr>
      in case conn_source params of
        None \<Rightarrow> unchanged\<lparr>out_log := Some (catch_log None None)\<rparr>
      | Some src \<Rightarrow>
         (case conn_target params of
            None \<Rightarrow> unchanged\<lparr>out_log := Some (catch_log None None)\<rparr>
          | Some tgt \<Rightarrow>
             (let sourceId = extractNodeId src; targetId = extractNodeId tgt
              in if sourceId = 0 \<or> targetId = 0 then unchanged\<lparr>out_log := Some InvalidNodeId\<rparr>
                 else
                  (let edgeData = \<lparr>source_id = sourceId, target_id = targetId,
                                     edge_kind = ''continue''\<rparr>
                   in case post edgeData of
                     Rejected status code \<Rightarrow>
                       unchanged\<lparr>out_requests := [edgeData],
                                 out_log := Some (catch_log status code)\<rparr>
                   | Resolved status newEdge_id \<Rightarrow>
                       (if status = 201 then
                          (let edgeToAdd = \<lparr>edge_id = ''e-'' @ string_of_int newEdge_id,
                                              edge_source = src, edge_target = tgt,
                                              edge_type = Some ''custom'',
                                              edge_data = no_edge_data\<lparr>edgeData := Some newEdge_id\<rparr>\<rparr>;
                               newEdges = edges @ [edgeToAdd]
                           in \<lparr>out_edges = newEdges, out_prevEdgesRef = newEdges,
                               out_requests = [edgeData], out_log = None,
                               out_callback = updateProcessChainsAfterEdge\<rparr>)
                        else unchanged\<lparr>out_requests := [edgeData]\<rparr>)))))"

section \<open>Process nodes (useProcessCanvas.ts, addProcessNode; ProcessManager.tsx, handleProcessSelect)\<close>

text \<open>
  What a node constructor draws from the clock and the random generator: \<open>Date.now()\<close>,
  the base-36 suffix of the identifier, and the two \<open>Math.random()\<close> values of the
  position.
\<close>

record entropy =
  now :: nat
  suffix :: string
  random_x :: real
  random_y :: real

definition unknown_names :: ustring where
  \<comment> \<open>the Korean literal (``unknown'') that replaces an empty list of names: the code
      units U+C54C, space, U+C218, space, U+C5C6, U+C74C\<close>
  "unknown_names = [0xC54C, 0x20, 0xC218, 0x20, 0xC5C6, 0xC74C]"

text \<open>
  \<open>selectedInstall?.id\<close> is the identifier of the selected installation, or \<open>undefined\<close>
  when none is selected: an \<open>int option\<close>. The two local constants of the source keep
  their names; both constructors compute them with the same expressions.
\<close>

definition relatedProducts :: "process \<Rightarrow> product list \<Rightarrow> product list" where
  \<comment> \<open>\<^verbatim>\<open>products.filter(product => process.products && process.products.some(p => p.id === product.id))\<close>\<close>
  "relatedProducts process products =
     filter (\<lambda>product. case process_products process of
                          None \<Rightarrow> False
                        | Some ps \<Rightarrow> list_ex (\<lambda>p. product_id p = product_id product) ps)
            products"

definition isExternalProcess :: "process \<Rightarrow> int option \<Rightarrow> bool option" where
  \<comment> \<open>\<^verbatim>\<open>process.products && process.products.some(p => p.install_id !== selectedInstall?.id)\<close>\<close>
  "isExternalProcess process selectedInstall_id =
     (case process_products process of
        None \<Rightarrow> None
      | Some ps \<Rightarrow> Some (list_ex (\<lambda>p. Some (product_install_id p) \<noteq> selectedInstall_id) ps))"

definition processNode :: "bool \<Rightarrow> entropy \<Rightarrow> process \<Rightarrow> product list \<Rightarrow> int option \<Rightarrow> node" where
  \<comment> \<open>the node both constructors build; only the hook sets \<open>data.id\<close>\<close>
  "processNode with_id e process products selectedInstall_id =
     (let productNames = join (ascii '', '') (map product_name (relatedProducts process products))
      in \<lparr>node_id = ''process-'' @ string_of_nat (now e) @ ''-'' @ suffix e,
          node_type = ''process'',
          position_x = js_add (js_mul (random_x e) 400) 100,
          position_y = js_add (js_mul (random_y e) 300) 100,
          style_width = None,
          style_height = None,
          data = \<lparr>data_id = (if with_id then Some (process_id process) else None),
                   label = process_name process,
                   variant = Some ''process'',
                   product_names = Some (if productNames = [] then unknown_names else productNames),
                   install_id = selectedInstall_id,
                   current_install_id = selectedInstall_id,
                   is_readonly = isExternalProcess process selectedInstall_id,
                   related_products = relatedProducts process products,
                   productData = None,
                   data_type = None,
                   boundaryType = None,
                   data_nodes = None\<rparr>\<rparr>)"

definition addProcessNode ::
  "entropy \<Rightarrow> process \<Rightarrow> product list \<Rightarrow> int option \<Rightarrow> node list \<Rightarrow> node list" where
  \<comment> \<open>useProcessCanvas.ts: \<^verbatim>\<open>setNodes(prev => [...prev, newNode])\<close>\<close>
  "addProcessNode e process products selectedInstall_id prev =
     prev @ [processNode True e process products selectedInstall_id]"

definition handleProcessSelect ::
  "entropy \<Rightarrow> process \<Rightarrow> product list \<Rightarrow> int option \<Rightarrow> node list \<Rightarrow> node list" where
  \<comment> \<open>ProcessManager.tsx: \<^verbatim>\<open>addNodes(newNode)\<close>\<close>
  "handleProcessSelect e process products selectedInstall_id prev =
     prev @ [processNode False e process products selectedInstall_id]"

section \<open>Product nodes (ProcessManager.tsx, handleProductSelect)\<close>

definition productNode :: "entropy \<Rightarrow> product \<Rightarrow> int option \<Rightarrow> node" where
  "productNode e product selectedInstall_id =
     \<lparr>node_id = ''product-'' @ string_of_nat (now e) @ ''-'' @ suffix e,
      node_type = ''custom'',
      position_x = js_add (js_mul (random_x e) 400) 100,
      position_y = js_add (js_mul (random_y e) 300) 100,
      style_width = None,
      style_height = None,
      data = \<lparr>data_id = None,
               label = product_name product,
               variant = Some ''product'',
               product_names = None,
               install_id = selectedInstall_id,
               current_install_id = None,
               is_readonly = None,
               related_products = [],
               productData = Some product,
               data_type = None,
               boundaryType = None,
               data_nodes = None\<rparr>\<rparr>"

section \<open>One canvas per installation (ProcessManager.tsx)\<close>

text \<open>
  \<open>installCanvases\<close> maps an installation identifier to the \<open>{nodes, edges}\<close> object
  saved for it. The state of the component, as far as the canvas is concerned: the live
  collections of React Flow, the snapshot map, the active identifier
  (\<open>number | null\<close>), the selected installation (its identifier) and the flag of the
  selection dialog.
\<close>

record canvas =
  canvas_nodes :: "node list"
  canvas_edges :: "edge list"

record manager =
  nodes :: "node list"
  edges :: "edge list"
  installCanvases :: "int \<rightharpoonup> canvas"
  activeInstallId :: "int option"
  selectedInstall :: "int option"
  showInstallModal :: bool

definition initial_manager :: manager where
  "initial_manager = \<lparr>nodes = [], edges = [], installCanvases = Map.empty,
     activeInstallId = None, selectedInstall = None, showInstallModal = False\<rparr>"

definition truthy :: "int option \<Rightarrow> bool" where
  \<comment> \<open>\<^verbatim>\<open>if (activeInstallId)\<close>: \<open>null\<close> and \<open>0\<close> are falsy\<close>
  "truthy v = (case v of None \<Rightarrow> False | Some n \<Rightarrow> n \<noteq> 0)"

definition live :: "manager \<Rightarrow> canvas" where
  \<comment> \<open>the object \<open>{ nodes, edges }\<close> of the current render\<close>
  "live s = \<lparr>canvas_nodes = nodes s, canvas_edges = edges s\<rparr>"

definition empty_canvas :: canvas where
  "empty_canvas = \<lparr>canvas_nodes = [], canvas_edges = []\<rparr>"

text \<open>
  The effect with dependencies \<open>[nodes, edges, activeInstallId]\<close>: after a render in
  which one of them changed, it stores the live collections under the active identifier.
\<close>

definition save_canvas_effect :: "manager \<Rightarrow> manager" where
  "save_canvas_effect s =
     (case activeInstallId s of
        None \<Rightarrow> s
      | Some a \<Rightarrow>
          (if truthy (activeInstallId s)
           then s\<lparr>installCanvases := (installCanvases s)(a \<mapsto> live s)\<rparr>
           else s))"

text \<open>
  \<open>handleInstallSelect(install)\<close>, with \<open>install.id\<close> as its argument. The snapshot it
  loads is read from the \<open>installCanvases\<close> of the render the callback closes over, that
  is from the map before the update the callback itself has just queued.
\<close>

definition handleInstallSelect :: "int \<Rightarrow> manager \<Rightarrow> manager" where
  "handleInstallSelect install s =
     (let saved = (case activeInstallId s of
                     None \<Rightarrow> installCanvases s
                   | Some a \<Rightarrow>
                       (if truthy (activeInstallId s)
                        then (installCanvases s)(a \<mapsto> live s)
                        else installCanvases s));
          canvasData = (case installCanvases s install of
                          None \<Rightarrow> empty_canvas
                        | Some c \<Rightarrow> c)
      in s\<lparr>installCanvases := saved,
           selectedInstall := Some install,
           activeInstallId := Some install,
           showInstallModal := False,
           nodes := canvas_nodes canvasData,
           edges := canvas_edges canvasData\<rparr>)"

text \<open>
  The gestures that change the canvas of the component: opening the selection dialog,
  selecting an installation (from the dialog or from a tab),
  \<open>addNodes(newNode)\<close> (the product, process and group constructors all end in it), and
  the changes React Flow applies through \<open>onNodesChange\<close> and \<open>onEdgesChange\<close> (a drag, a
  removal), given by the collection they produce. Each gesture is followed by a render
  and its effect.
\<close>

datatype event =
    OpenInstallModal
  | InstallSelect int
  | AddNodes node
  | NodesChange "node list"
  | EdgesChange "edge list"

fun handle :: "event \<Rightarrow> manager \<Rightarrow> manager" where
  "handle OpenInstallModal s = s\<lparr>showInstallModal := True\<rparr>"
| "handle (InstallSelect install) s = handleInstallSelect install s"
| "handle (AddNodes n) s = s\<lparr>nodes := nodes s @ [n]\<rparr>"
| "handle (NodesChange ns) s = s\<lparr>nodes := ns\<rparr>"
| "handle (EdgesChange es) s = s\<lparr>edges := es\<rparr>"

definition step :: "event \<Rightarrow> manager \<Rightarrow> manager" where
  "step ev s = save_canvas_effect (handle ev s)"

definition run :: "event list \<Rightarrow> manager \<Rightarrow> manager" where
  "run evs s = foldl (\<lambda>s ev. step ev s) s evs"

section \<open>Restoring a canvas in the hook (useProcessCanvas.ts)\<close>

text \<open>
  The hook keeps the same snapshot map and runs the same saving effect, with
  \<^verbatim>\<open>activeInstallId = selectedInstall?.id || null\<close>. Its \<open>handleInstallSelect\<close> has an
  empty body; the canvas is restored by a second effect, which runs on the render state
  and compares the selected identifier with \<open>prevInstallIdRef\<close>. \<open>JSON.stringify\<close> of two
  node or edge lists is compared as equality of the lists.
\<close>

record hook =
  hook_nodes :: "node list"
  hook_edges :: "edge list"
  hook_installCanvases :: "int \<rightharpoonup> canvas"
  prevInstallIdRef :: "int option"
  prevNodesRef :: "node list"
  prevEdgesRef :: "edge list"

definition restore_effect :: "int option \<Rightarrow> hook \<Rightarrow> hook" where
  "restore_effect selectedInstall_id h =
     (case selectedInstall_id of
        None \<Rightarrow> h
      | Some i \<Rightarrow>
         (if Some i \<noteq> prevInstallIdRef h then
            (let canvasData = (case hook_installCanvases h i of
                                 None \<Rightarrow> empty_canvas
                               | Some c \<Rightarrow> c);
                 nodesChanged = (prevNodesRef h \<noteq> canvas_nodes canvasData);
                 edgesChanged = (prevEdgesRef h \<noteq> canvas_edges canvasData);
                 h1 = (if nodesChanged
                       then h\<lparr>hook_nodes := canvas_nodes canvasData,
                              prevNodesRef := canvas_nodes canvasData\<rparr>
                       else h);
                 h2 = (if edgesChanged
                       then h1\<lparr>hook_edges := canvas_edges canvasData,
                               prevEdgesRef := canvas_edges canvasData\<rparr>
                       else h1)
             in h2\<lparr>prevInstallIdRef := Some i\<rparr>)
          else h))"

section \<open>Groups (the flow editor: createGroupFromSelectedNodes, handleCreateGroup, updateGroupSize)\<close>

text \<open>
  The state the group functions read and write: the nodes of the canvas, the selected
  node identifiers, the flag and the two inputs of the group dialog. A handler returns
  the alert it raised, if any, and the state.
\<close>

record editor =
  editor_nodes :: "node list"
  selectedNodes :: "string list"
  showGroupModal :: bool
  groupName :: ustring
  groupType :: string

datatype alert =
    NeedTwoNodes
  | NeedGroupName

definition createGroupFromSelectedNodes :: "editor \<Rightarrow> alert option \<times> editor" where
  "createGroupFromSelectedNodes s =
     (if length (selectedNodes s) < 2 then (Some NeedTwoNodes, s)
      else (None, s\<lparr>showGroupModal := True\<rparr>))"

text \<open>
  \<open>onNodeSelectionChange(params)\<close> is the \<open>onSelectionChange\<close> handler of the canvas, with
  \<open>params.nodes\<close> as its argument; \<open>onGroupNameChange\<close> is the \<open>onChange\<close> handler of the
  name input of the dialog, with \<open>e.target.value\<close> as its argument.
\<close>

definition onNodeSelectionChange :: "node list \<Rightarrow> editor \<Rightarrow> editor" where
  "onNodeSelectionChange params_nodes s = s\<lparr>selectedNodes := map node_id params_nodes\<rparr>"

definition onGroupNameChange :: "ustring \<Rightarrow> editor \<Rightarrow> editor" where
  "onGroupNameChange target_value s = s\<lparr>groupName := target_value\<rparr>"

definition Math_min :: "real \<Rightarrow> real list \<Rightarrow> real" where
  \<comment> \<open>\<open>Math.min\<close> of a non-empty argument list, given as its head and its tail; it
      selects one of its arguments and does not round\<close>
  "Math_min a as = fold min as a"

definition Math_max :: "real \<Rightarrow> real list \<Rightarrow> real" where
  "Math_max a as = fold max as a"

definition handleCreateGroup :: "nat \<Rightarrow> editor \<Rightarrow> alert option \<times> editor" where
  "handleCreateGroup date_now s =
     (if trim (groupName s) = [] then (Some NeedGroupName, s)
      else
        (case filter (\<lambda>n. node_id n \<in> set (selectedNodes s)) (editor_nodes s) of
           [] \<Rightarrow> (None, s)
         | n # ns \<Rightarrow>
            (let minX = Math_min (position_x n) (map position_x ns);
                 minY = Math_min (position_y n) (map position_y ns);
                 maxX = Math_max (position_x n) (map position_x ns);
                 maxY = Math_max (position_y n) (map position_y ns);
                 groupNode =
                   \<lparr>node_id = ''group-'' @ string_of_nat date_now,
                    node_type = ''group'',
                    position_x = js_sub minX 50,
                    position_y = js_sub minY 50,
                    style_width = Some (js_add (js_sub maxX minX) 200),
                    style_height = Some (js_add (js_sub maxY minY) 200),
                    data = \<lparr>data_id = None,
                             label = groupName s,
                             variant = None,
                             product_names = None,
                             install_id = None,
                             current_install_id = None,
                             is_readonly = None,
                             related_products = [],
                             productData = None,
                             data_type = Some (groupType s),
                             boundaryType = Some (if groupType s = ''product'' then ''output''
                                                  else ''internal''),
                             data_nodes = Some (selectedNodes s)\<rparr>\<rparr>
             in (None, s\<lparr>editor_nodes := editor_nodes s @ [groupNode],
                          showGroupModal := False,
                          groupName := [],
                          selectedNodes := []\<rparr>))))"



section \<open>Edge routing (the useEdgeRouting hook)\<close>

text \<open>
  The hook keeps two pieces of state, and every routing function sets them: \<open>isRouting\<close>
  is raised at entry and lowered in the \<open>finally\<close> block, \<open>currentRoutingType\<close> records
  the strategy that ran. A routing function returns its result and the state it leaves.
  \<open>routingTime\<close> is a measurement of the clock and is left out of the result. An option
  of the caller that is absent is \<open>None\<close>; a present one overrides the default.
\<close>

datatype EdgeRoutingType = Default | Smart | Orthogonal | Bezier | Straight | Step

datatype complexity = Low | Medium | High

record EdgeRoutingOptions =
  opt_stepSize :: "real option"
  opt_smoothness :: "real option"
  opt_gridSnap :: "bool option"

record EdgeRoutingResult =
  result_edges :: "edge list"
  result_complexity :: complexity

record routing =
  isRouting :: bool
  currentRoutingType :: EdgeRoutingType

definition override :: "'a \<Rightarrow> 'a option \<Rightarrow> 'a option" where
  \<comment> \<open>a field of \<^verbatim>\<open>{ default, ...options }\<close>\<close>
  "override d v = (case v of None \<Rightarrow> Some d | Some w \<Rightarrow> Some w)"

definition distance :: "node \<Rightarrow> node \<Rightarrow> real" where
  \<comment> \<open>\<open>Math.pow(d, 2)\<close> is taken as the rounded square, \<open>Math.sqrt\<close> as the rounded root\<close>
  "distance sourceNode targetNode =
     (let dx = js_sub (position_x targetNode) (position_x sourceNode);
          dy = js_sub (position_y targetNode) (position_y sourceNode)
      in round_to_double (sqrt (js_add (js_mul dx dx) (js_mul dy dy))))"

definition smart_edge :: "node list \<Rightarrow> edge \<Rightarrow> edge" where
  \<comment> \<open>the function mapped over the edges by \<open>applySmartEdgeRouting\<close>\<close>
  "smart_edge ns e =
     (case find (\<lambda>n. node_id n = edge_source e) ns of
        None \<Rightarrow> e
      | Some sourceNode \<Rightarrow>
         (case find (\<lambda>n. node_id n = edge_target e) ns of
            None \<Rightarrow> e
          | Some targetNode \<Rightarrow>
             (if distance sourceNode targetNode < 100
              then e\<lparr>edge_type := Some ''smartEdge'',
                      edge_data := (edge_data e)\<lparr>routingType := Some ''smart'',
                                                 avoidNodes := Some True\<rparr>\<rparr>
              else e)))"

definition applySmartEdgeRouting ::
  "edge list \<Rightarrow> node list \<Rightarrow> EdgeRoutingOptions \<Rightarrow> routing \<Rightarrow> EdgeRoutingResult \<times> routing" where
  "applySmartEdgeRouting es ns options st =
     (\<lparr>result_edges = map (smart_edge ns) es,
       result_complexity = (if length es > 20 then High else if length es > 10 then Medium else Low)\<rparr>,
      \<lparr>isRouting = False, currentRoutingType = Smart\<rparr>)"

definition applyOrthogonalRouting ::
  "edge list \<Rightarrow> EdgeRoutingOptions \<Rightarrow> routing \<Rightarrow> EdgeRoutingResult \<times> routing" where
  "applyOrthogonalRouting es options st =
     (\<lparr>result_edges =
         map (\<lambda>e. e\<lparr>edge_type := Some ''orthogonalEdge'',
                     edge_data := (edge_data e)\<lparr>routingType := Some ''orthogonal'',
                                                stepSize := override 20 (opt_stepSize options),
                                                gridSnap := override True (opt_gridSnap options)\<rparr>\<rparr>)
             es,
       result_complexity = (if length es > 15 then High else if length es > 8 then Medium else Low)\<rparr>,
      \<lparr>isRouting = False, currentRoutingType = Orthogonal\<rparr>)"

definition applyBezierRouting ::
  "edge list \<Rightarrow> EdgeRoutingOptions \<Rightarrow> routing \<Rightarrow> EdgeRoutingResult \<times> routing" where
  "applyBezierRouting es options st =
     (\<lparr>result_edges =
         map (\<lambda>e. e\<lparr>edge_type := Some ''bezierEdge'',
                     edge_data := (edge_data e)\<lparr>routingType := Some ''bezier'',
                                                smoothness := override (1 / 2) (opt_smoothness options)\<rparr>\<rparr>)
             es,
       result_complexity = Low\<rparr>,
      \<lparr>isRouting = False, currentRoutingType = Bezier\<rparr>)"

definition applyAutoRouting ::
  "edge list \<Rightarrow> node list \<Rightarrow> EdgeRoutingOptions \<Rightarrow> routing \<Rightarrow> EdgeRoutingResult \<times> routing" where
  "applyAutoRouting es ns options st =
     (if length es \<le> 5 then applyBezierRouting es options st
      else if length es \<le> 15 then applySmartEdgeRouting es ns options st
      else applyOrthogonalRouting es options st)"

section \<open>Specification-level notions\<close>

text \<open>
  The notions the properties below are stated with; none of them is part of the code.
  A state is \<open>settled\<close> when the snapshot map already holds the live collections under a
  truthy active identifier, as it does once the saving effect has run. \<open>trace\<close> lists the
  states a sequence of gestures goes through, and \<open>last_shown X\<close> is the canvas that was
  live in the last of them in which \<open>X\<close> was the active installation.
\<close>

definition settled :: "manager \<Rightarrow> bool" where
  "settled s =
     (case activeInstallId s of
        None \<Rightarrow> True
      | Some a \<Rightarrow> a = 0 \<or> installCanvases s a = Some (live s))"

fun trace :: "event list \<Rightarrow> manager \<Rightarrow> manager list" where
  "trace [] s = [s]"
| "trace (ev # evs) s = s # trace evs (step ev s)"

definition last_shown :: "int \<Rightarrow> event list \<Rightarrow> canvas option" where
  "last_shown X evs =
     (case filter (\<lambda>s. activeInstallId s = Some X) (rev (trace evs initial_manager)) of
        [] \<Rightarrow> None
      | s # _ \<Rightarrow> Some (live s))"

text \<open>
  The members of a group, as the specification has them: the nodes of the canvas, other
  than groups, whose identifier is in the member list of the group. \<open>fit_to_members\<close> is
  the geometry a group is to get from a set of members: the least coordinates less 50
  and the spread of the coordinates plus 200, each operation in double arithmetic.
  A coordinate is \<open>whole\<close> when it is an integer of magnitude at most \<open>2^51\<close>, as the
  coordinates of a node placed on whole pixels are.
\<close>

definition whole :: "real \<Rightarrow> bool" where
  "whole v = (v \<in> \<int> \<and> \<bar>v\<bar> \<le> 2 ^ 51)"



section \<open>Example data\<close>

definition steel :: product where
  "steel = \<lparr>product_id = 10, product_install_id = 1, product_name = ascii ''steel''\<rparr>"

definition slab :: product where
  "slab = \<lparr>product_id = 20, product_install_id = 2, product_name = ascii ''slab''\<rparr>"

definition rolling :: process where
  \<comment> \<open>a process whose linked products lie in installations 1 and 2\<close>
  "rolling = \<lparr>process_id = 5, process_name = ascii ''rolling'', process_products = Some [steel, slab]\<rparr>"

definition clock :: entropy where
  "clock = \<lparr>now = 1700000000000, suffix = ''ab12'', random_x = 1 / 2, random_y = 1 / 4\<rparr>"

definition steel_node :: node where
  "steel_node = productNode clock steel (Some 1)"

definition scrap_node :: node where
  \<comment> \<open>a product node made on the canvas of an installation whose identifier is 0\<close>
  "scrap_node =
     productNode clock \<lparr>product_id = 30, product_install_id = 0, product_name = ascii ''scrap''\<rparr> (Some 0)"

definition plain_node :: "string \<Rightarrow> real \<Rightarrow> real \<Rightarrow> node" where
  "plain_node i px py = (productNode clock steel (Some 1))\<lparr>node_id := i, position_x := px, position_y := py\<rparr>"

definition two_on_canvas :: editor where
  \<comment> \<open>two nodes on the canvas, both selected; the dialog is closed and the name input
      has its initial value\<close>
  "two_on_canvas =
     \<lparr>editor_nodes = [plain_node ''product-1-a'' 100 100, plain_node ''product-2-b'' 300 200],
      selectedNodes = [''product-1-a'', ''product-2-b''],
      showGroupModal = False,
      groupName = [],
      groupType = ''product''\<rparr>"

definition two_selected :: editor where
  \<comment> \<open>the dialog opened on the two selected nodes, with a name entered\<close>
  "two_selected =
     onGroupNameChange (ascii ''line 1'') (snd (createGroupFromSelectedNodes two_on_canvas))"

definition one_selected :: editor where
  \<comment> \<open>the selection changed to one node while the dialog is open\<close>
  "one_selected = onNodeSelectionChange [plain_node ''product-1-a'' 100 100] two_selected"






definition plain_edge :: edge where
  "plain_edge = \<lparr>edge_id = ''e-1'', edge_source = ''product-1-a'', edge_target = ''product-2-b'',
     edge_type = Some ''custom'', edge_data = no_edge_data\<rparr>"

definition no_options :: EdgeRoutingOptions where
  "no_options = \<lparr>opt_stepSize = None, opt_smoothness = None, opt_gridSnap = None\<rparr>"

definition idle :: routing where
  "idle = \<lparr>isRouting = False, currentRoutingType = Default\<rparr>"

chapter \<open>Properties\<close>

section \<open>The decoder\<close>

lemma takeWhile_digits:
  assumes "list_all is_digit ds" and "rest = [] \<or> \<not> is_digit (hd rest)"
  shows "takeWhile is_digit (ds @ rest) = ds"
proof -
  have "takeWhile is_digit rest = []"
    using assms(2) by (cases rest) auto
  moreover have "\<forall>c\<in>set ds. is_digit c"
    using assms(1) by (simp add: list_all_iff)
  ultimately show ?thesis
    by (simp add: takeWhile_append2)
qed

lemma match_here_segment:
  assumes "w \<in> {''product'', ''process'', ''group''}" and "ds \<noteq> []"
    and "list_all is_digit ds" and "rest = [] \<or> \<not> is_digit (hd rest)"
  shows "match_here (w @ ''-'' @ ds @ rest) = Some ds"
proof -
  have tw: "takeWhile is_digit (ds @ rest) = ds"
    using assms(3,4) by (rule takeWhile_digits)
  from assms(1) consider "w = ''product''" | "w = ''process''" | "w = ''group''"
    by auto
  then show ?thesis
  proof cases
    case 1
    then show ?thesis using tw assms(2) by (simp add: match_here_def)
  next
    case 2
    then show ?thesis using tw assms(2) by (simp add: match_here_def)
  next
    case 3
    then show ?thesis using tw assms(2) by (simp add: match_here_def)
  qed
qed

lemma extractNodeId_segment:
  assumes "w \<in> {''product'', ''process'', ''group''}" and "ds \<noteq> []"
    and "list_all is_digit ds" and "rest = [] \<or> \<not> is_digit (hd rest)"
  shows "extractNodeId (w @ ''-'' @ ds @ rest) = parseInt ds"
proof -
  have m: "match_here (w @ ''-'' @ ds @ rest) = Some ds"
    using assms by (rule match_here_segment)
  obtain c cs where "w @ ''-'' @ ds @ rest = c # cs"
    by (cases w) auto
  then have "regex_match (w @ ''-'' @ ds @ rest) = Some ds"
    using m by simp
  then show ?thesis
    by (simp add: extractNodeId_def)
qed

lemma parseInt_zeros:
  assumes "list_all (\<lambda>c. c = CHR ''0'') ds"
  shows "parseInt ds = 0"
proof -
  from assms have "foldl (\<lambda>a c. 10 * a + digit_val c) 0 ds = 0"
    by (induction ds rule: rev_induct) (auto simp: digit_val_def digits_def)
  then show ?thesis
    by (simp add: parseInt_def)
qed

text \<open>
  C4. The decoder returns the integer written right after a \<open>product-\<close>, \<open>process-\<close> or
  \<open>group-\<close> prefix: \<open>product-1700000000000-ab12\<close> decodes to 1700000000000, and
  \<open>group-xyz\<close>, which has no digit after the prefix, decodes to the failure value 0. In
  general an identifier made of one of the three words, a hyphen, a non-empty run of
  digits and a rest that does not go on with a digit decodes to the value of the digits.
\<close>

theorem extractNodeId_decodes_segment:
  "extractNodeId ''product-1700000000000-ab12'' = 1700000000000
   \<and> extractNodeId ''group-xyz'' = 0
   \<and> (w \<in> {''product'', ''process'', ''group''} \<longrightarrow> ds \<noteq> [] \<longrightarrow> list_all is_digit ds
        \<longrightarrow> (rest = [] \<or> \<not> is_digit (hd rest))
        \<longrightarrow> extractNodeId (w @ ''-'' @ ds @ rest) = parseInt ds)"
proof (intro conjI impI)
  show "extractNodeId ''product-1700000000000-ab12'' = 1700000000000"
    by (simp add: extractNodeId_def match_here_def is_digit_def parseInt_def digit_val_def digits_def)
  show "extractNodeId ''group-xyz'' = 0"
    by (simp add: extractNodeId_def match_here_def is_digit_def digits_def)
next
  assume "w \<in> {''product'', ''process'', ''group''}" "ds \<noteq> []" "list_all is_digit ds"
    "rest = [] \<or> \<not> is_digit (hd rest)"
  then show "extractNodeId (w @ ''-'' @ ds @ rest) = parseInt ds"
    by (rule extractNodeId_segment)
qed

theorem extractNodeId_decodes_segment_witness:
  "extractNodeId ''process-42-k9'' = 42"
  using extractNodeId_decodes_segment [of "''process''" "''42''" "''-k9''"]
  by (simp add: is_digit_def parseInt_def digit_val_def digits_def)

section \<open>Creating an edge\<close>

text \<open>
  C5. The handler changes the live edge collection only when the backend answers 201.
  If either end decodes to 0 it sends no request and leaves the collection and its
  mirror as they were; if no request it sent was answered with 201 (a rejection of any
  kind, or another status) the collection is the one it started from; and whenever
  the collection does change, exactly one request was sent, it was answered with 201, and
  the collection is the old one followed by the edge named after the backend identifier.
\<close>

theorem edge_added_only_on_201:
  fixes post :: "edge_request \<Rightarrow> axios_result" and params :: connection
    and cb :: bool and es prev :: "edge list"
  defines "r \<equiv> handleEdgeCreate post params cb es prev"
  shows "(\<forall>src tgt. conn_source params = Some src \<longrightarrow> conn_target params = Some tgt
            \<longrightarrow> extractNodeId src = 0 \<or> extractNodeId tgt = 0
            \<longrightarrow> out_requests r = [] \<and> out_edges r = es \<and> out_prevEdgesRef r = prev)
       \<and> ((\<forall>rq \<in> set (out_requests r). \<forall>i. post rq \<noteq> Resolved 201 i)
            \<longrightarrow> out_edges r = es \<and> out_prevEdgesRef r = prev)
       \<and> (out_edges r \<noteq> es \<longrightarrow>
            (\<exists>rq i src tgt. out_requests r = [rq] \<and> post rq = Resolved 201 i
                \<and> conn_source params = Some src \<and> conn_target params = Some tgt
                \<and> out_edges r = es @ [\<lparr>edge_id = ''e-'' @ string_of_int i, edge_source = src,
                                         edge_target = tgt, edge_type = Some ''custom'',
                                         edge_data = no_edge_data\<lparr>edgeData := Some i\<rparr>\<rparr>]))"
  unfolding r_def
  by (auto simp: handleEdgeCreate_def Let_def split: option.splits axios_result.splits)

theorem edge_added_only_on_201_witness:
  "out_edges (handleEdgeCreate (\<lambda>rq. Rejected (Some 500) None)
      \<lparr>conn_source = Some ''product-12-ab'', conn_target = Some ''process-13-cd''\<rparr> True [] []) = []
   \<and> out_requests (handleEdgeCreate (\<lambda>rq. Resolved 201 7)
      \<lparr>conn_source = Some ''product-12-ab'', conn_target = Some ''group-xyz''\<rparr> True [] []) = []"
proof -
  have zero: "extractNodeId ''group-xyz'' = 0"
    by (simp add: extractNodeId_def match_here_def is_digit_def digits_def)
  from edge_added_only_on_201 [where post = "\<lambda>rq. Rejected (Some 500) None"
      and params = "\<lparr>conn_source = Some ''product-12-ab'', conn_target = Some ''process-13-cd''\<rparr>"
      and cb = True and es = "[]" and prev = "[]"]
  have "out_edges (handleEdgeCreate (\<lambda>rq. Rejected (Some 500) None)
      \<lparr>conn_source = Some ''product-12-ab'', conn_target = Some ''process-13-cd''\<rparr> True [] []) = []"
    by simp
  moreover
  from edge_added_only_on_201 [where post = "\<lambda>rq. Resolved 201 7"
      and params = "\<lparr>conn_source = Some ''product-12-ab'', conn_target = Some ''group-xyz''\<rparr>"
      and cb = True and es = "[]" and prev = "[]"] zero
  have "out_requests (handleEdgeCreate (\<lambda>rq. Resolved 201 7)
      \<lparr>conn_source = Some ''product-12-ab'', conn_target = Some ''group-xyz''\<rparr> True [] []) = []"
    by simp
  ultimately show ?thesis
    by simp
qed

text \<open>
  C10. The failure value of the decoder is the integer 0, so an identifier whose integer
  segment is 0, such as \<open>product-0-ab12\<close>, decodes to the failure value although it has
  the shape of every other identifier; with such an identifier at either end the handler
  reports an invalid node, sends no request and leaves the edges as they were.
\<close>

theorem zero_segment_aborts_connection:
  assumes "w \<in> {''product'', ''process'', ''group''}" and "ds \<noteq> []"
    and "list_all (\<lambda>c. c = CHR ''0'') ds" and "rest = [] \<or> \<not> is_digit (hd rest)"
  shows "extractNodeId ''product-0-ab12'' = 0
    \<and> extractNodeId (w @ ''-'' @ ds @ rest) = 0
    \<and> handleEdgeCreate post \<lparr>conn_source = Some (w @ ''-'' @ ds @ rest), conn_target = Some other\<rparr>
          cb es prev
        = \<lparr>out_edges = es, out_prevEdgesRef = prev, out_requests = [],
           out_log = Some InvalidNodeId, out_callback = False\<rparr>
    \<and> handleEdgeCreate post \<lparr>conn_source = Some other, conn_target = Some (w @ ''-'' @ ds @ rest)\<rparr>
          cb es prev
        = \<lparr>out_edges = es, out_prevEdgesRef = prev, out_requests = [],
           out_log = Some InvalidNodeId, out_callback = False\<rparr>"
proof -
  have digits: "list_all is_digit ds"
    using assms(3) by (induction ds) (auto simp: is_digit_def digits_def)
  have zero: "extractNodeId (w @ ''-'' @ ds @ rest) = 0"
    using extractNodeId_segment [OF assms(1,2) digits assms(4)] parseInt_zeros [OF assms(3)]
    by simp
  have ex: "extractNodeId ''product-0-ab12'' = 0"
    by (simp add: extractNodeId_def match_here_def is_digit_def parseInt_def digit_val_def digits_def)
  show ?thesis
    using zero ex by (simp add: handleEdgeCreate_def Let_def)
qed

theorem zero_segment_aborts_connection_witness:
  "handleEdgeCreate (\<lambda>r. Resolved 201 7)
      \<lparr>conn_source = Some ''product-0-ab12'', conn_target = Some ''process-1700000000001-cd34''\<rparr>
      True [] []
    = \<lparr>out_edges = [], out_prevEdgesRef = [], out_requests = [], out_log = Some InvalidNodeId,
       out_callback = False\<rparr>"
  using zero_segment_aborts_connection [of "''product''" "''0''" "''-ab12''" "\<lambda>r. Resolved 201 7"
      "''process-1700000000001-cd34''" True "[]" "[]"]
  by (simp add: is_digit_def digits_def)

section \<open>Process nodes\<close>

text \<open>
  C2, as the code has it. The read-only flag of a process node is computed over the
  product list embedded in the process (\<open>process.products\<close>), not over the products of
  the current installation that are linked to it (\<open>relatedProducts\<close>, which only goes
  into \<open>related_products\<close> and the label): the flag is true exactly when some linked
  product has an installation identifier other than the one of the selected
  installation, and it is undefined when the process carries no product list. Both
  constructors compute the same flag. Hence a process whose linked products lie in two
  different installations is read-only on every canvas, the canvases of both
  installations included.
\<close>

theorem process_readonly_from_linked_products:
  "is_readonly (data (last (addProcessNode e pr products sel prev)))
     = (case process_products pr of
          None \<Rightarrow> None
        | Some ps \<Rightarrow> Some (\<exists>p \<in> set ps. Some (product_install_id p) \<noteq> sel))
   \<and> is_readonly (data (last (handleProcessSelect e pr products sel prev)))
     = is_readonly (data (last (addProcessNode e pr products sel prev)))
   \<and> related_products (data (last (addProcessNode e pr products sel prev)))
     = (case process_products pr of
          None \<Rightarrow> []
        | Some ps \<Rightarrow> filter (\<lambda>q. product_id q \<in> product_id ` set ps) products)
   \<and> (\<forall>ps. process_products pr = Some ps
          \<longrightarrow> (\<exists>p \<in> set ps. \<exists>q \<in> set ps. product_install_id p \<noteq> product_install_id q)
          \<longrightarrow> is_readonly (data (last (addProcessNode e pr products sel prev))) = Some True)"
proof -
  have r: "is_readonly (data (processNode b e pr products sel))
             = (case process_products pr of
                  None \<Rightarrow> None
                | Some ps \<Rightarrow> Some (\<exists>p \<in> set ps. Some (product_install_id p) \<noteq> sel))" for b
    by (simp add: processNode_def Let_def isExternalProcess_def list_ex_iff split: option.splits)
  have rel: "related_products (data (processNode b e pr products sel))
             = (case process_products pr of
                  None \<Rightarrow> []
                | Some ps \<Rightarrow> filter (\<lambda>q. product_id q \<in> product_id ` set ps) products)" for b
  proof -
    have h: "list_ex (\<lambda>p. product_id p = product_id q) ps
               = (product_id q \<in> product_id ` set ps)" for q ps
      by (force simp: list_ex_iff)
    show ?thesis
      by (simp add: processNode_def Let_def relatedProducts_def h split: option.splits)
  qed
  have span: "\<exists>p \<in> set ps. Some (product_install_id p) \<noteq> sel"
    if "\<exists>p \<in> set ps. \<exists>q \<in> set ps. product_install_id p \<noteq> product_install_id q" for ps
    using that by (metis option.inject)
  show ?thesis
  proof (intro conjI allI impI)
    show "is_readonly (data (last (addProcessNode e pr products sel prev)))
            = (case process_products pr of
                 None \<Rightarrow> None
               | Some ps \<Rightarrow> Some (\<exists>p \<in> set ps. Some (product_install_id p) \<noteq> sel))"
      by (simp add: addProcessNode_def r)
    show "is_readonly (data (last (handleProcessSelect e pr products sel prev)))
            = is_readonly (data (last (addProcessNode e pr products sel prev)))"
      by (simp add: addProcessNode_def handleProcessSelect_def r)
    show "related_products (data (last (addProcessNode e pr products sel prev)))
            = (case process_products pr of
                 None \<Rightarrow> []
               | Some ps \<Rightarrow> filter (\<lambda>q. product_id q \<in> product_id ` set ps) products)"
      by (simp add: addProcessNode_def rel)
  next
    fix ps
    assume linked: "process_products pr = Some ps"
      and two: "\<exists>p \<in> set ps. \<exists>q \<in> set ps. product_install_id p \<noteq> product_install_id q"
    from span [OF two] linked
    show "is_readonly (data (last (addProcessNode e pr products sel prev))) = Some True"
      by (simp add: addProcessNode_def r)
  qed
qed

theorem process_readonly_from_linked_products_witness:
  "is_readonly (data (last (addProcessNode clock rolling [slab] (Some 2) []))) = Some True
   \<and> is_readonly (data (last (handleProcessSelect clock rolling [slab] (Some 2) []))) = Some True
   \<and> related_products (data (last (addProcessNode clock rolling [slab] (Some 2) []))) = [slab]"
proof -
  have l: "process_products rolling = Some [steel, slab]"
    by (simp add: rolling_def)
  have two: "\<exists>p \<in> set [steel, slab]. \<exists>q \<in> set [steel, slab].
               product_install_id p \<noteq> product_install_id q"
    by (auto simp: steel_def slab_def)
  from process_readonly_from_linked_products [of clock rolling "[slab]" "Some 2" "[]"] l two
  show ?thesis
    by (simp add: steel_def slab_def)
qed

text \<open>
  The process \<open>rolling\<close> is linked to a product of installation 1 and a product of
  installation 2. Created on the canvas of installation 1, with the products of that
  installation loaded, its node is read-only, although none of the related products
  belongs to another installation.
\<close>

theorem readonly_on_own_installation_counterexample:
  "is_readonly (data (last (addProcessNode clock rolling [steel] (Some 1) []))) = Some True
   \<and> is_readonly (data (last (handleProcessSelect clock rolling [steel] (Some 1) []))) \<noteq> Some False
   \<and> list_ex (\<lambda>p. Some (product_install_id p) \<noteq> Some 1) (relatedProducts rolling [steel]) = False"
  by (simp add: addProcessNode_def handleProcessSelect_def processNode_def isExternalProcess_def
                relatedProducts_def rolling_def steel_def slab_def Let_def)

section \<open>One canvas per installation\<close>

lemma live_installCanvases_update [simp]: "live (s\<lparr>installCanvases := m\<rparr>) = live s"
  by (simp add: live_def)

lemma settled_save: "settled (save_canvas_effect s)"
  by (auto simp: settled_def save_canvas_effect_def truthy_def split: option.splits)

lemma settled_step: "settled (step ev s)"
  unfolding step_def by (rule settled_save)

lemma run_snoc: "run (evs @ [ev]) s = step ev (run evs s)"
  by (simp add: run_def)

lemma run_Cons: "run (ev # evs) s = run evs (step ev s)"
  by (simp add: run_def)

lemma settled_run: "settled (run evs initial_manager)"
proof (cases evs rule: rev_cases)
  case Nil
  then show ?thesis by (simp add: run_def settled_def initial_manager_def)
next
  case (snoc evs' ev)
  then show ?thesis by (simp add: run_snoc settled_step)
qed

lemma trace_snoc: "trace (evs @ [ev]) s = trace evs s @ [run (evs @ [ev]) s]"
  by (induction evs arbitrary: s) (simp_all add: run_Cons, simp add: run_def)

text \<open>A gesture leaves the snapshot of every installation other than the one it makes
  active as it was.\<close>

lemma other_snapshots_kept:
  assumes "settled s" and "activeInstallId (step ev s) \<noteq> Some X"
  shows "installCanvases (step ev s) X = installCanvases s X"
  using assms
  by (cases ev)
     (auto simp: step_def save_canvas_effect_def handleInstallSelect_def truthy_def Let_def
                 settled_def
           split: option.splits if_splits)

text \<open>For a non-zero identifier the stored snapshot is the canvas that was live when the
  installation was last active.\<close>

lemma snapshot_last_shown:
  "X \<noteq> 0 \<Longrightarrow> installCanvases (run evs initial_manager) X = last_shown X evs"
proof (induction evs rule: rev_induct)
  case Nil
  then show ?case
    by (simp add: run_def last_shown_def initial_manager_def)
next
  case (snoc ev evs)
  let ?s = "run evs initial_manager"
  let ?s2 = "step ev ?s"
  have tr: "rev (trace (evs @ [ev]) initial_manager) = ?s2 # rev (trace evs initial_manager)"
    by (simp add: trace_snoc run_snoc)
  show ?case
  proof (cases "activeInstallId ?s2 = Some X")
    case True
    have "settled ?s2" by (rule settled_step)
    with True snoc.prems have "installCanvases ?s2 X = Some (live ?s2)"
      by (simp add: settled_def)
    moreover have "last_shown X (evs @ [ev]) = Some (live ?s2)"
      unfolding last_shown_def tr using True by simp
    ultimately show ?thesis by (simp add: run_snoc)
  next
    case False
    have "installCanvases ?s2 X = installCanvases ?s X"
      using settled_run False by (rule other_snapshots_kept)
    moreover have "last_shown X (evs @ [ev]) = last_shown X evs"
      unfolding last_shown_def tr using False by simp
    ultimately show ?thesis using snoc.IH [OF snoc.prems] by (simp add: run_snoc)
  qed
qed

text \<open>Only an installation that has been selected is active or has a snapshot.\<close>

lemma visited_step:
  assumes "\<forall>a. activeInstallId s = Some a \<longrightarrow> InstallSelect a \<in> V"
    and "\<forall>Y. installCanvases s Y \<noteq> None \<longrightarrow> InstallSelect Y \<in> V"
  shows "(\<forall>a. activeInstallId (step ev s) = Some a \<longrightarrow> InstallSelect a \<in> insert ev V)
       \<and> (\<forall>Y. installCanvases (step ev s) Y \<noteq> None \<longrightarrow> InstallSelect Y \<in> insert ev V)"
  using assms
  by (cases ev)
     (auto simp: step_def save_canvas_effect_def handleInstallSelect_def truthy_def Let_def
           split: option.splits if_splits)

lemma visited_run:
  "(\<forall>a. activeInstallId (run evs initial_manager) = Some a \<longrightarrow> InstallSelect a \<in> set evs)
   \<and> (\<forall>Y. installCanvases (run evs initial_manager) Y \<noteq> None \<longrightarrow> InstallSelect Y \<in> set evs)"
proof (induction evs rule: rev_induct)
  case Nil
  then show ?case by (simp add: run_def initial_manager_def)
next
  case (snoc ev evs)
  then show ?case
    using visited_step [of "run evs initial_manager" "set evs" ev]
    by (simp add: run_snoc)
qed

lemma select_loads_snapshot:
  "live (step (InstallSelect X) s)
     = (case installCanvases s X of None \<Rightarrow> empty_canvas | Some c \<Rightarrow> c)"
  by (auto simp: step_def save_canvas_effect_def handleInstallSelect_def truthy_def Let_def live_def
           split: option.splits)

text \<open>In a settled state the snapshot the handler stores for the outgoing installation is
  the one the map already holds, so loading from the map of the closure is loading
  after the commit.\<close>

lemma commit_before_load:
  assumes "settled s"
  shows "installCanvases (handleInstallSelect X s) = installCanvases s"
  using assms
  by (auto simp: handleInstallSelect_def truthy_def Let_def settled_def map_upd_triv
           split: option.splits)

lemmas run_simps = run_def step_def save_canvas_effect_def handleInstallSelect_def truthy_def
  live_def empty_canvas_def initial_manager_def Let_def

text \<open>
  What selecting an installation restores. After any sequence of gestures from the
  initial state, selecting installation \<open>X\<close> makes the live node and edge collections
  equal to the snapshot stored for \<open>X\<close>, or to the empty canvas when none is stored; the
  handler's own store for the outgoing installation does not change the map it loads
  from. For a non-zero \<open>X\<close> that snapshot is the canvas that was live when \<open>X\<close> was last
  active. If \<open>X\<close> has never been selected the canvas is empty. The snapshots of the other
  installations are kept, and \<open>X\<close> is the active installation afterwards.
\<close>

theorem select_restores_committed_snapshot:
  fixes evs :: "event list" and X :: int
  defines "s \<equiv> run evs initial_manager"
  defines "s' \<equiv> step (InstallSelect X) s"
  shows "live s' = (case installCanvases s X of None \<Rightarrow> empty_canvas | Some c \<Rightarrow> c)
       \<and> installCanvases (handleInstallSelect X s) = installCanvases s
       \<and> (X \<noteq> 0 \<longrightarrow> installCanvases s X = last_shown X evs)
       \<and> (InstallSelect X \<notin> set evs \<longrightarrow> live s' = empty_canvas)
       \<and> (\<forall>Y. Y \<noteq> X \<longrightarrow> installCanvases s' Y = installCanvases s Y)
       \<and> activeInstallId s' = Some X"
proof (intro conjI impI allI)
  show load: "live s' = (case installCanvases s X of None \<Rightarrow> empty_canvas | Some c \<Rightarrow> c)"
    unfolding s'_def by (rule select_loads_snapshot)
  show "installCanvases (handleInstallSelect X s) = installCanvases s"
    unfolding s_def using settled_run by (rule commit_before_load)
  show "installCanvases s X = last_shown X evs" if "X \<noteq> 0"
    unfolding s_def using that by (rule snapshot_last_shown)
  show "live s' = empty_canvas" if "InstallSelect X \<notin> set evs"
  proof -
    have "installCanvases s X = None"
      using visited_run [of evs] that unfolding s_def by blast
    with load show ?thesis by simp
  qed
  show act: "activeInstallId s' = Some X"
    unfolding s'_def
    by (auto simp: step_def save_canvas_effect_def handleInstallSelect_def Let_def
             split: option.splits)
  show "installCanvases s' Y = installCanvases s Y" if "Y \<noteq> X" for Y
  proof -
    have "activeInstallId (step (InstallSelect X) s) \<noteq> Some Y"
      using act that unfolding s'_def by simp
    with settled_run show ?thesis
      unfolding s'_def s_def by (rule other_snapshots_kept)
  qed
qed

text \<open>
  The scenario of the specification with the identifiers 1 and 2: select installation 1,
  add one product node, select installation 2 (its canvas is empty), select installation
  1 again. The canvas then holds exactly the node that was added, with the position it
  was created at.
\<close>

theorem select_restores_committed_snapshot_witness:
  "live (run [InstallSelect 1, AddNodes steel_node, InstallSelect 2, InstallSelect 1] initial_manager)
     = \<lparr>canvas_nodes = [steel_node], canvas_edges = []\<rparr>
   \<and> live (run [InstallSelect 1, AddNodes steel_node, InstallSelect 2] initial_manager) = empty_canvas
   \<and> last_shown 1 [InstallSelect 1, AddNodes steel_node, InstallSelect 2]
     = Some \<lparr>canvas_nodes = [steel_node], canvas_edges = []\<rparr>"
proof -
  have a: "installCanvases (run [InstallSelect 1, AddNodes steel_node, InstallSelect 2] initial_manager) 1
             = Some \<lparr>canvas_nodes = [steel_node], canvas_edges = []\<rparr>"
    by (simp add: run_simps)
  have b: "InstallSelect 2 \<notin> set [InstallSelect 1, AddNodes steel_node]"
    by simp
  have c: "(1::int) \<noteq> 0"
    by simp
  from select_restores_committed_snapshot
         [where evs = "[InstallSelect 1, AddNodes steel_node, InstallSelect 2]" and X = 1] a c
  have "live (step (InstallSelect 1)
               (run [InstallSelect 1, AddNodes steel_node, InstallSelect 2] initial_manager))
          = \<lparr>canvas_nodes = [steel_node], canvas_edges = []\<rparr>
        \<and> last_shown 1 [InstallSelect 1, AddNodes steel_node, InstallSelect 2]
          = Some \<lparr>canvas_nodes = [steel_node], canvas_edges = []\<rparr>"
    by simp
  moreover
  from select_restores_committed_snapshot
         [where evs = "[InstallSelect 1, AddNodes steel_node]" and X = 2] b
  have "live (step (InstallSelect 2) (run [InstallSelect 1, AddNodes steel_node] initial_manager))
          = empty_canvas"
    by blast
  ultimately show ?thesis
    by (simp add: run_def)
qed

text \<open>
  C1. The same scenario on an installation whose identifier is 0: select it, add one
  product node, select installation 2, select installation 0 again. The node is on the
  canvas while installation 0 is active, but no snapshot is ever stored under 0 (both
  guards are \<^verbatim>\<open>if (activeInstallId)\<close>, and 0 is falsy), so after the return the canvas
  is empty instead of holding the node.
\<close>

theorem installation_zero_canvas_lost:
  "live (run [InstallSelect 0, AddNodes scrap_node] initial_manager)
     = \<lparr>canvas_nodes = [scrap_node], canvas_edges = []\<rparr>
   \<and> installCanvases (run [InstallSelect 0, AddNodes scrap_node, InstallSelect 2] initial_manager) 0
     = None
   \<and> last_shown 0 [InstallSelect 0, AddNodes scrap_node, InstallSelect 2]
     = Some \<lparr>canvas_nodes = [scrap_node], canvas_edges = []\<rparr>
   \<and> live (run [InstallSelect 0, AddNodes scrap_node, InstallSelect 2, InstallSelect 0] initial_manager)
     = empty_canvas"
  by (simp add: run_simps last_shown_def)

text \<open>
  Selecting the active installation again. When the active installation has a non-zero
  identifier, selecting it again leaves the live nodes, the live edges, the snapshot map
  and the active identifier as they were.
\<close>

theorem reselect_active_is_noop:
  fixes evs :: "event list" and X :: int
  defines "s \<equiv> run evs initial_manager"
  assumes active: "activeInstallId s = Some X" and nonzero: "X \<noteq> 0"
  shows "nodes (step (InstallSelect X) s) = nodes s
       \<and> edges (step (InstallSelect X) s) = edges s
       \<and> installCanvases (step (InstallSelect X) s) = installCanvases s
       \<and> activeInstallId (step (InstallSelect X) s) = activeInstallId s"
proof -
  have "settled s"
    unfolding s_def by (rule settled_run)
  with active nonzero have snap: "installCanvases s X = Some (live s)"
    by (simp add: settled_def)
  show ?thesis
    using active nonzero snap
    by (simp add: step_def save_canvas_effect_def handleInstallSelect_def truthy_def Let_def
                  live_def map_upd_triv)
qed

theorem reselect_active_is_noop_witness:
  "nodes (step (InstallSelect 1) (run [InstallSelect 1, AddNodes steel_node] initial_manager))
     = [steel_node]
   \<and> activeInstallId (run [InstallSelect 1, AddNodes steel_node] initial_manager) = Some 1
   \<and> (1::int) \<noteq> 0"
proof -
  have a: "activeInstallId (run [InstallSelect 1, AddNodes steel_node] initial_manager) = Some 1"
    by (simp add: run_simps)
  have n: "nodes (run [InstallSelect 1, AddNodes steel_node] initial_manager) = [steel_node]"
    by (simp add: run_simps)
  from reselect_active_is_noop [where evs = "[InstallSelect 1, AddNodes steel_node]" and X = 1] a n
  show ?thesis by simp
qed

text \<open>
  In the hook the restoring effect tests the selected identifier against the one it
  restored last, so selecting the same installation again changes nothing, whatever
  the identifier.
\<close>

lemma hook_reselect_is_noop:
  "prevInstallIdRef h = Some i \<Longrightarrow> restore_effect (Some i) h = h"
  by (simp add: restore_effect_def)

text \<open>
  C3. With an installation whose identifier is 0 active and one node on its canvas,
  selecting that installation again is not a no-op: no snapshot is stored under 0 and the
  handler has no test for the active identifier, so it loads the empty canvas and the
  node is gone.
\<close>

theorem reselect_installation_zero_empties_canvas:
  "activeInstallId (run [InstallSelect 0, AddNodes scrap_node] initial_manager) = Some 0
   \<and> nodes (run [InstallSelect 0, AddNodes scrap_node] initial_manager) = [scrap_node]
   \<and> nodes (step (InstallSelect 0) (run [InstallSelect 0, AddNodes scrap_node] initial_manager)) = []
   \<and> nodes (step (InstallSelect 0) (run [InstallSelect 0, AddNodes scrap_node] initial_manager))
       \<noteq> nodes (run [InstallSelect 0, AddNodes scrap_node] initial_manager)"
  by (simp add: run_simps)

section \<open>Rounding to a double\<close>

lemma round_half_even_le: "y \<le> of_int k \<Longrightarrow> round_half_even y \<le> k"
  unfolding round_half_even_def Let_def by (auto; linarith)

lemma round_half_even_int: "round_half_even (of_int k) = k"
  unfolding round_half_even_def Let_def by simp


lemma exponent_bounds:
  assumes "x \<noteq> 0"
  shows "2 powr of_int (exponent x) \<le> \<bar>x\<bar>" and "\<bar>x\<bar> < 2 powr of_int (exponent x + 1)"
proof -
  have "0 < \<bar>x\<bar>" using assms by simp
  then have "\<lfloor>log 2 \<bar>x\<bar>\<rfloor> = exponent x \<longleftrightarrow>
      2 powr of_int (exponent x) \<le> \<bar>x\<bar> \<and> \<bar>x\<bar> < 2 powr of_int (exponent x + 1)"
    by (intro floor_log_eq_powr_iff) simp_all
  then show "2 powr of_int (exponent x) \<le> \<bar>x\<bar>" and "\<bar>x\<bar> < 2 powr of_int (exponent x + 1)"
    by (simp_all add: exponent_def)
qed


lemma powr_int_ge: "q \<le> p \<Longrightarrow> \<exists>k::int. (2::real) powr of_int p = of_int k * 2 powr of_int q"
proof -
  assume "q \<le> p"
  then have "2 powr real_of_int p = 2 powr (real_of_int (p - q) + real_of_int q)"
    by simp
  also have "\<dots> = 2 powr real_of_int (p - q) * 2 powr real_of_int q"
    by (rule powr_add)
  also have "2 powr real_of_int (p - q) = 2 ^ nat (p - q)"
    using \<open>q \<le> p\<close> powr_real_of_int [of 2 "p - q"] by (simp del: of_int_diff)
  also have "\<dots> = of_int (2 ^ nat (p - q))"
    by simp
  finally show ?thesis by blast
qed

text \<open>Rounding never crosses a double: below a double, the rounded value is below it too.\<close>

lemma round_to_double_le:
  assumes a: "is_double a" and xa: "x \<le> a"
  shows "round_to_double x \<le> a"
proof (cases "x = 0")
  case True
  with xa show ?thesis by (simp add: round_to_double_def)
next
  case x0: False
  let ?g = "(2::real) powr of_int (ulp_exponent x)"
  have g: "0 < ?g" by simp
  have step: "round_to_double x \<le> a" if "x / ?g \<le> of_int k" and "of_int k * ?g \<le> a" for k
  proof -
    have "round_half_even (x / ?g) \<le> k"
      using that(1) by (rule round_half_even_le)
    then have "real_of_int (round_half_even (x / ?g)) \<le> real_of_int k"
      by simp
    then have "of_int (round_half_even (x / ?g)) * ?g \<le> of_int k * ?g"
      using g by (rule mult_right_mono [OF _ less_imp_le])
    with that(2) have "of_int (round_half_even (x / ?g)) * ?g \<le> a"
      by linarith
    with x0 show ?thesis
      by (simp add: round_to_double_def)
  qed
  show ?thesis
  proof (cases "a = 0")
    case True
    with xa have "x / ?g \<le> of_int 0"
      using g by (simp add: divide_le_0_iff)
    moreover have "of_int 0 * ?g \<le> a" using True by simp
    ultimately show ?thesis by (rule step)
  next
    case a0: False
    obtain m :: int where m: "a = of_int m * 2 powr of_int (ulp_exponent a)"
      using a a0 unfolding is_double_def by (metis round_to_double_def)
    show ?thesis
    proof (cases "ulp_exponent x \<le> ulp_exponent a")
      case True
      then obtain k :: int where "2 powr of_int (ulp_exponent a) = of_int k * ?g"
        using powr_int_ge by blast
      then have ak: "a = of_int (m * k) * ?g"
        using m by simp
      then have "x / ?g \<le> of_int (m * k)"
        using xa g by (simp add: pos_divide_le_eq)
      moreover have "of_int (m * k) * ?g \<le> a"
        using ak by simp
      ultimately show ?thesis by (rule step)
    next
      case False
      then have q: "ulp_exponent x = exponent x - 52" and ex: "exponent a < exponent x"
        by (auto simp: ulp_exponent_def)
      have "\<bar>a\<bar> < 2 powr of_int (exponent a + 1)"
        using a0 by (rule exponent_bounds)
      also have "\<dots> \<le> 2 powr of_int (exponent x)"
        using ex by (simp add: powr_mono)
      finally have abs_a: "\<bar>a\<bar> < 2 powr of_int (exponent x)" .
      have abs_x: "2 powr of_int (exponent x) \<le> \<bar>x\<bar>"
        using x0 by (rule exponent_bounds)
      have neg: "x < 0"
        using abs_a abs_x xa by linarith
      have pw: "2 powr of_int (exponent x) = of_int (2 ^ 52) * ?g"
      proof -
        have "2 powr real_of_int (exponent x) = 2 powr (52 + real_of_int (exponent x - 52))"
          by simp
        also have "\<dots> = 2 powr 52 * 2 powr real_of_int (exponent x - 52)"
          by (rule powr_add)
        finally show ?thesis by (simp add: q)
      qed
      have "x \<le> - (of_int (2 ^ 52) * ?g)"
        using abs_x neg pw by linarith
      then have "x / ?g \<le> of_int (- (2 ^ 52))"
        using g by (simp add: pos_divide_le_eq)
      moreover have "of_int (- (2 ^ 52)) * ?g \<le> a"
        using abs_a pw by (simp; linarith)
      ultimately show ?thesis by (rule step)
    qed
  qed
qed

text \<open>Integers below \<open>2^53\<close> in magnitude are doubles.\<close>

lemma round_to_double_int:
  assumes "\<bar>n\<bar> < 2 ^ 53"
  shows "round_to_double (of_int n) = of_int n"
proof (cases "n = 0")
  case True
  then show ?thesis by (simp add: round_to_double_def)
next
  case False
  let ?x = "real_of_int n"
  let ?g = "(2::real) powr of_int (ulp_exponent ?x)"
  have x0: "?x \<noteq> 0" using False by simp
  have "2 powr of_int (exponent ?x) \<le> \<bar>?x\<bar>"
    using x0 by (rule exponent_bounds)
  also have "\<bar>?x\<bar> < 2 powr of_int 53"
  proof -
    have "real_of_int \<bar>n\<bar> < real_of_int (2 ^ 53)"
      using assms by (simp only: of_int_less_iff)
    then show ?thesis by simp
  qed
  finally have "real_of_int (exponent ?x) < real_of_int 53"
    by (rule powr_less_cancel) simp
  then have "exponent ?x < 53"
    by simp
  moreover have "0 \<le> exponent ?x"
  proof -
    have "1 \<le> \<bar>?x\<bar>" using False by (simp flip: of_int_abs)
    then have "0 \<le> log 2 \<bar>?x\<bar>" by simp
    then show ?thesis by (simp add: exponent_def)
  qed
  ultimately have q: "ulp_exponent ?x \<le> 0"
    by (simp add: ulp_exponent_def)
  then obtain k :: int where k: "2 powr of_int 0 = of_int k * ?g"
    using powr_int_ge by blast
  have "?x / ?g = ?x * (of_int k * ?g) / ?g"
    using k by simp
  also have "\<dots> = ?x * of_int k"
    by simp
  finally have "?x / ?g = of_int (n * k)"
    by simp
  then have "round_half_even (?x / ?g) = n * k"
    by (simp add: round_half_even_int del: of_int_mult)
  then have "round_to_double ?x = of_int (n * k) * ?g"
    using x0 by (simp add: round_to_double_def del: of_int_mult)
  also have "\<dots> = ?x * (of_int k * ?g)"
    by simp
  also have "\<dots> = ?x"
    using k by simp
  finally show ?thesis .
qed


lemma whole_exact:
  assumes "whole a" and "whole b"
  shows "js_sub a 50 = a - 50" and "js_add (js_sub b a) 200 = b - a + 200"
proof -
  from assms obtain i j :: int where a: "a = of_int i" and b: "b = of_int j"
    by (auto simp: whole_def Ints_def)
  have "real_of_int \<bar>i\<bar> \<le> real_of_int (2 ^ 51)" "real_of_int \<bar>j\<bar> \<le> real_of_int (2 ^ 51)"
    using assms unfolding a b whole_def by simp_all
  then have i: "\<bar>i\<bar> \<le> 2 ^ 51" and j: "\<bar>j\<bar> \<le> 2 ^ 51"
    by (simp_all only: of_int_le_iff)
  have "round_to_double (of_int (i - 50)) = of_int (i - 50)"
    by (rule round_to_double_int) (use i in simp)
  then show "js_sub a 50 = a - 50"
    by (simp add: js_sub_def a)
  have "round_to_double (of_int (j - i)) = of_int (j - i)"
    by (rule round_to_double_int) (use i j in simp)
  moreover have "round_to_double (of_int (j - i + 200)) = of_int (j - i + 200)"
    by (rule round_to_double_int) (use i j in simp)
  ultimately show "js_add (js_sub b a) 200 = b - a + 200"
    by (simp add: js_sub_def js_add_def a b)
qed


section \<open>Groups\<close>

lemma Math_min_Min: "Math_min (f n) (map f ns) = Min (f ` set (n # ns))"
proof -
  have "Min (set (f n # map f ns)) = fold min (map f ns) (f n)"
    by (rule Min.set_eq_fold)
  then show ?thesis by (simp add: Math_min_def)
qed

lemma Math_max_Max: "Math_max (f n) (map f ns) = Max (f ` set (n # ns))"
proof -
  have "Max (set (f n # map f ns)) = fold max (map f ns) (f n)"
    by (rule Max.set_eq_fold)
  then show ?thesis by (simp add: Math_max_def)
qed

text \<open>
  The left and the top edge of a box fitted to a set of coordinates: never beyond a
  coordinate of the set, and exactly 50 before the least one when the coordinates are
  whole; then the size is exact too.
\<close>

lemma edge_before_members:
  assumes "finite V" and "v \<in> V" and "is_double v"
  shows "js_sub (Min V) 50 \<le> v"
proof -
  have "Min V \<le> v"
    using assms(1,2) by (rule Min_le)
  then have "Min V - 50 \<le> v"
    by simp
  with assms(3) show ?thesis
    unfolding js_sub_def by (rule round_to_double_le)
qed

lemma whole_box_exact:
  assumes "finite V" and "V \<noteq> {}" and "\<forall>v\<in>V. whole v"
  shows "js_sub (Min V) 50 = Min V - 50"
    and "js_add (js_sub (Max V) (Min V)) 200 = Max V - Min V + 200"
proof -
  have "Min V \<in> V" and "Max V \<in> V"
    using assms(1,2) by simp_all
  then have "whole (Min V)" and "whole (Max V)"
    using assms(3) by simp_all
  then show "js_sub (Min V) 50 = Min V - 50"
    and "js_add (js_sub (Max V) (Min V)) 200 = Max V - Min V + 200"
    by (rule whole_exact)+
qed

lemma whole_numeral [simp]: "whole 0" "whole 100" "whole 200" "whole 300"
  by (simp_all add: whole_def)

text \<open>
  C6. With at least two node identifiers selected the group dialog opens. Confirming the
  dialog creates a group only when a name has been entered: with a name that is empty or
  all white space (the name is empty when the dialog opens) an alert is raised and nothing
  changes, and nothing changes either (without an alert) when no selected identifier names
  a node of the canvas. In every other case a group node is appended which stores the
  selected identifiers as its members and whose geometry is computed, in double
  arithmetic, from the positions of the selected nodes: position (minX - 50, minY - 50),
  size (maxX - minX + 200, maxY - minY + 200). The left and the top edge are never beyond
  a selected node, and when the coordinates of the selected nodes are whole no operation
  rounds: position and size are these numbers exactly.
\<close>

theorem named_selection_creates_group:
  fixes s :: editor and date_now :: nat
  defines "sel \<equiv> filter (\<lambda>n. node_id n \<in> set (selectedNodes s)) (editor_nodes s)"
  defines "s' \<equiv> snd (handleCreateGroup date_now s)"
  defines "g \<equiv> last (editor_nodes s')"
  shows "(2 \<le> length (selectedNodes s) \<longrightarrow>
            createGroupFromSelectedNodes s = (None, s\<lparr>showGroupModal := True\<rparr>))
       \<and> (trim (groupName s) = [] \<longrightarrow> handleCreateGroup date_now s = (Some NeedGroupName, s))
       \<and> (trim (groupName s) \<noteq> [] \<longrightarrow> sel = [] \<longrightarrow> handleCreateGroup date_now s = (None, s))
       \<and> (trim (groupName s) \<noteq> [] \<longrightarrow> sel \<noteq> [] \<longrightarrow>
            fst (handleCreateGroup date_now s) = None
            \<and> editor_nodes s' = editor_nodes s @ [g]
            \<and> node_type g = ''group''
            \<and> position_x g = js_sub (Min (position_x ` set sel)) 50
            \<and> position_y g = js_sub (Min (position_y ` set sel)) 50
            \<and> style_width g
                = Some (js_add (js_sub (Max (position_x ` set sel)) (Min (position_x ` set sel))) 200)
            \<and> style_height g
                = Some (js_add (js_sub (Max (position_y ` set sel)) (Min (position_y ` set sel))) 200)
            \<and> data_nodes (data g) = Some (selectedNodes s)
            \<and> (\<forall>n\<in>set sel. (is_double (position_x n) \<longrightarrow> position_x g \<le> position_x n)
                           \<and> (is_double (position_y n) \<longrightarrow> position_y g \<le> position_y n))
            \<and> ((\<forall>n\<in>set sel. whole (position_x n) \<and> whole (position_y n)) \<longrightarrow>
                  position_x g = Min (position_x ` set sel) - 50
                  \<and> position_y g = Min (position_y ` set sel) - 50
                  \<and> style_width g
                      = Some (Max (position_x ` set sel) - Min (position_x ` set sel) + 200)
                  \<and> style_height g
                      = Some (Max (position_y ` set sel) - Min (position_y ` set sel) + 200)))"
proof (intro conjI impI)
  show "createGroupFromSelectedNodes s = (None, s\<lparr>showGroupModal := True\<rparr>)"
    if "2 \<le> length (selectedNodes s)"
    using that by (simp add: createGroupFromSelectedNodes_def)
  show "handleCreateGroup date_now s = (Some NeedGroupName, s)" if "trim (groupName s) = []"
    using that by (simp add: handleCreateGroup_def)
  show "handleCreateGroup date_now s = (None, s)" if "trim (groupName s) \<noteq> []" "sel = []"
    using that by (simp add: handleCreateGroup_def sel_def)
next
  assume name: "trim (groupName s) \<noteq> []" and nonempty: "sel \<noteq> []"
  from nonempty obtain n ns where sel: "sel = n # ns"
    by (cases sel) auto
  then have f: "filter (\<lambda>n. node_id n \<in> set (selectedNodes s)) (editor_nodes s) = n # ns"
    by (simp add: sel_def)
  have mx: "Math_min (position_x n) (map position_x ns) = Min (position_x ` set sel)"
    and my: "Math_min (position_y n) (map position_y ns) = Min (position_y ` set sel)"
    and Mx: "Math_max (position_x n) (map position_x ns) = Max (position_x ` set sel)"
    and My: "Math_max (position_y n) (map position_y ns) = Max (position_y ` set sel)"
    unfolding sel by (rule Math_min_Min Math_max_Max)+
  have t: "(trim (groupName s) = []) = False"
    using name by simp
  have created: "fst (handleCreateGroup date_now s) = None
       \<and> editor_nodes s' = editor_nodes s @ [g]
       \<and> node_type g = ''group''
       \<and> position_x g = js_sub (Min (position_x ` set sel)) 50
       \<and> position_y g = js_sub (Min (position_y ` set sel)) 50
       \<and> style_width g
           = Some (js_add (js_sub (Max (position_x ` set sel)) (Min (position_x ` set sel))) 200)
       \<and> style_height g
           = Some (js_add (js_sub (Max (position_y ` set sel)) (Min (position_y ` set sel))) 200)
       \<and> data_nodes (data g) = Some (selectedNodes s)"
    unfolding g_def s'_def handleCreateGroup_def Let_def f list.case mx my Mx My t if_False
    by simp
  then show "fst (handleCreateGroup date_now s) = None"
    and "editor_nodes s' = editor_nodes s @ [g]"
    and "node_type g = ''group''"
    and gx: "position_x g = js_sub (Min (position_x ` set sel)) 50"
    and gy: "position_y g = js_sub (Min (position_y ` set sel)) 50"
    and gw: "style_width g
           = Some (js_add (js_sub (Max (position_x ` set sel)) (Min (position_x ` set sel))) 200)"
    and gh: "style_height g
           = Some (js_add (js_sub (Max (position_y ` set sel)) (Min (position_y ` set sel))) 200)"
    and "data_nodes (data g) = Some (selectedNodes s)"
    by simp_all
  show "\<forall>n\<in>set sel. (is_double (position_x n) \<longrightarrow> position_x g \<le> position_x n)
                   \<and> (is_double (position_y n) \<longrightarrow> position_y g \<le> position_y n)"
    unfolding gx gy by (simp add: edge_before_members)
  assume w: "\<forall>n\<in>set sel. whole (position_x n) \<and> whole (position_y n)"
  have fx: "finite (position_x ` set sel)" "position_x ` set sel \<noteq> {}"
    "\<forall>v\<in>position_x ` set sel. whole v"
    and fy: "finite (position_y ` set sel)" "position_y ` set sel \<noteq> {}"
    "\<forall>v\<in>position_y ` set sel. whole v"
    using nonempty w by simp_all
  show "position_x g = Min (position_x ` set sel) - 50"
    unfolding gx using fx by (rule whole_box_exact)
  show "position_y g = Min (position_y ` set sel) - 50"
    unfolding gy using fy by (rule whole_box_exact)
  show "style_width g = Some (Max (position_x ` set sel) - Min (position_x ` set sel) + 200)"
    unfolding gw using whole_box_exact(2) [OF fx] by simp
  show "style_height g = Some (Max (position_y ` set sel) - Min (position_y ` set sel) + 200)"
    unfolding gh using whole_box_exact(2) [OF fy] by simp
qed

text \<open>
  The scenario of the specification: two selected nodes at (100, 100) and (300, 200), and
  a name entered in the dialog, give a group at (50, 50) that is 400 wide and 300 high.
\<close>

theorem named_selection_creates_group_witness:
  "position_x (last (editor_nodes (snd (handleCreateGroup 1700000000000 two_selected)))) = 50
   \<and> position_y (last (editor_nodes (snd (handleCreateGroup 1700000000000 two_selected)))) = 50
   \<and> style_width (last (editor_nodes (snd (handleCreateGroup 1700000000000 two_selected)))) = Some 400
   \<and> style_height (last (editor_nodes (snd (handleCreateGroup 1700000000000 two_selected)))) = Some 300
   \<and> data_nodes (data (last (editor_nodes (snd (handleCreateGroup 1700000000000 two_selected)))))
       = Some [''product-1-a'', ''product-2-b'']
   \<and> createGroupFromSelectedNodes two_on_canvas = (None, two_on_canvas\<lparr>showGroupModal := True\<rparr>)"
proof -
  have st: "two_selected = two_on_canvas\<lparr>showGroupModal := True, groupName := ascii ''line 1''\<rparr>"
    by (simp add: two_selected_def two_on_canvas_def createGroupFromSelectedNodes_def
        onGroupNameChange_def)
  have name: "trim (groupName two_selected) \<noteq> []"
    by (simp add: st trim_def is_white_space_def ascii_def)
  have sel: "filter (\<lambda>n. node_id n \<in> set (selectedNodes two_selected)) (editor_nodes two_selected)
               = [plain_node ''product-1-a'' 100 100, plain_node ''product-2-b'' 300 200]"
    by (simp add: st two_on_canvas_def plain_node_def)
  have ids: "selectedNodes two_selected = [''product-1-a'', ''product-2-b'']"
    by (simp add: st two_on_canvas_def)
  have two: "2 \<le> length (selectedNodes two_on_canvas)"
    by (simp add: two_on_canvas_def)
  let ?sel = "filter (\<lambda>n. node_id n \<in> set (selectedNodes two_selected)) (editor_nodes two_selected)"
  let ?g = "last (editor_nodes (snd (handleCreateGroup 1700000000000 two_selected)))"
  have ne: "?sel \<noteq> []"
    unfolding sel by simp
  have wh: "\<forall>n\<in>set ?sel. whole (position_x n) \<and> whole (position_y n)"
    unfolding sel by (simp add: plain_node_def)
  from named_selection_creates_group [where s = two_on_canvas and date_now = 0] two
  have opens: "createGroupFromSelectedNodes two_on_canvas = (None, two_on_canvas\<lparr>showGroupModal := True\<rparr>)"
    by blast
  from named_selection_creates_group [where s = two_selected and date_now = 1700000000000]
    name ne wh
  have "position_x ?g = Min (position_x ` set ?sel) - 50
      \<and> position_y ?g = Min (position_y ` set ?sel) - 50
      \<and> style_width ?g = Some (Max (position_x ` set ?sel) - Min (position_x ` set ?sel) + 200)
      \<and> style_height ?g = Some (Max (position_y ` set ?sel) - Min (position_y ` set ?sel) + 200)
      \<and> data_nodes (data ?g) = Some (selectedNodes two_selected)"
    by blast
  note geometry = this [unfolded sel]
  from geometry opens show ?thesis
    by (simp add: ids plain_node_def)
qed

text \<open>
  Against the claim as stated: two nodes are selected and the dialog has just been opened
  on them, so the name is the empty string; confirming the dialog raises the alert and
  creates no group. A name made of a no-break space does the same.
\<close>

theorem unnamed_selection_creates_no_group:
  "length (selectedNodes (snd (createGroupFromSelectedNodes two_on_canvas))) = 2
   \<and> showGroupModal (snd (createGroupFromSelectedNodes two_on_canvas))
   \<and> handleCreateGroup 1700000000000 (snd (createGroupFromSelectedNodes two_on_canvas))
       = (Some NeedGroupName, snd (createGroupFromSelectedNodes two_on_canvas))
   \<and> handleCreateGroup 1700000000000
        (onGroupNameChange [0xA0] (snd (createGroupFromSelectedNodes two_on_canvas)))
       = (Some NeedGroupName, onGroupNameChange [0xA0] (snd (createGroupFromSelectedNodes two_on_canvas)))"
  by (simp add: two_on_canvas_def createGroupFromSelectedNodes_def handleCreateGroup_def
      onGroupNameChange_def trim_def is_white_space_def)

lemma too_few_selected_raises_alert:
  assumes "length (selectedNodes s) < 2"
  shows "createGroupFromSelectedNodes s = (Some NeedTwoNodes, s)"
  using assms by (simp add: createGroupFromSelectedNodes_def)

text \<open>
  C7. Asking for a group with fewer than two identifiers selected raises the alert and
  changes nothing (\<open>too_few_selected_raises_alert\<close>), but the handler that creates the
  group does not count the selection. The dialog is opened on two selected nodes and a
  name is entered; the selection then changes to one node. One identifier is selected
  now, and asking for a group in this state would raise the alert; confirming the open
  dialog raises none and appends a group node with the one member to the canvas.
\<close>

theorem open_dialog_groups_single_selection:
  "one_selected
     = onNodeSelectionChange [plain_node ''product-1-a'' 100 100]
         (onGroupNameChange (ascii ''line 1'') (snd (createGroupFromSelectedNodes two_on_canvas)))
   \<and> selectedNodes one_selected = [''product-1-a'']
   \<and> showGroupModal one_selected
   \<and> createGroupFromSelectedNodes one_selected = (Some NeedTwoNodes, one_selected)
   \<and> fst (handleCreateGroup 1700000000000 one_selected) = None
   \<and> map node_type (editor_nodes (snd (handleCreateGroup 1700000000000 one_selected)))
       = [''custom'', ''custom'', ''group'']
   \<and> editor_nodes (snd (handleCreateGroup 1700000000000 one_selected))
       \<noteq> editor_nodes one_selected
   \<and> data_nodes (data (last (editor_nodes (snd (handleCreateGroup 1700000000000 one_selected)))))
       = Some [''product-1-a'']"
proof -
  have st: "one_selected = two_on_canvas\<lparr>selectedNodes := [''product-1-a''], showGroupModal := True,
      groupName := ascii ''line 1''\<rparr>"
    by (simp add: one_selected_def two_selected_def two_on_canvas_def createGroupFromSelectedNodes_def
        onGroupNameChange_def onNodeSelectionChange_def plain_node_def)
  have name: "(trim (ascii ''line 1'') = []) = False"
    by (simp add: trim_def is_white_space_def ascii_def)
  show ?thesis
    unfolding st
    by (simp add: two_on_canvas_def createGroupFromSelectedNodes_def handleCreateGroup_def name
        Let_def plain_node_def productNode_def one_selected_def two_selected_def
        onGroupNameChange_def onNodeSelectionChange_def)
qed












section \<open>Edge routing\<close>

text \<open>
  C8. \<open>applyAutoRouting\<close> chooses its strategy by the number of edges alone: up to 5
  edges it is \<open>applyBezierRouting\<close>, from 6 to 15 it is \<open>applySmartEdgeRouting\<close>, above 15 it
  is \<open>applyOrthogonalRouting\<close>. The strategy that ran is recorded in
  \<open>currentRoutingType\<close>, and the bezier and orthogonal strategies retype every edge.
\<close>

theorem auto_routing_by_edge_count:
  "(length es \<le> 5 \<longrightarrow>
      applyAutoRouting es ns options st = applyBezierRouting es options st
      \<and> currentRoutingType (snd (applyAutoRouting es ns options st)) = Bezier
      \<and> (\<forall>e \<in> set (result_edges (fst (applyAutoRouting es ns options st))).
            edge_type e = Some ''bezierEdge''))
   \<and> (5 < length es \<and> length es \<le> 15 \<longrightarrow>
      applyAutoRouting es ns options st = applySmartEdgeRouting es ns options st
      \<and> currentRoutingType (snd (applyAutoRouting es ns options st)) = Smart)
   \<and> (15 < length es \<longrightarrow>
      applyAutoRouting es ns options st = applyOrthogonalRouting es options st
      \<and> currentRoutingType (snd (applyAutoRouting es ns options st)) = Orthogonal
      \<and> (\<forall>e \<in> set (result_edges (fst (applyAutoRouting es ns options st))).
            edge_type e = Some ''orthogonalEdge''))"
  by (auto simp: applyAutoRouting_def applyBezierRouting_def applySmartEdgeRouting_def
                 applyOrthogonalRouting_def)

text \<open>The boundaries: 5 edges, 6 edges, 15 edges and 16 edges.\<close>

theorem auto_routing_by_edge_count_witness:
  "currentRoutingType (snd (applyAutoRouting (replicate 5 plain_edge) [] no_options idle)) = Bezier
   \<and> currentRoutingType (snd (applyAutoRouting (replicate 6 plain_edge) [] no_options idle)) = Smart
   \<and> currentRoutingType (snd (applyAutoRouting (replicate 15 plain_edge) [] no_options idle)) = Smart
   \<and> currentRoutingType (snd (applyAutoRouting (replicate 16 plain_edge) [] no_options idle)) = Orthogonal"
proof -
  have l5: "length (replicate 5 plain_edge) \<le> 5"
    and l6: "5 < length (replicate 6 plain_edge) \<and> length (replicate 6 plain_edge) \<le> 15"
    and l15: "5 < length (replicate 15 plain_edge) \<and> length (replicate 15 plain_edge) \<le> 15"
    and l16: "15 < length (replicate 16 plain_edge)"
    by simp_all
  from auto_routing_by_edge_count [of "replicate 5 plain_edge" "[]" no_options idle] l5
  have "currentRoutingType (snd (applyAutoRouting (replicate 5 plain_edge) [] no_options idle)) = Bezier"
    by blast
  moreover
  from auto_routing_by_edge_count [of "replicate 6 plain_edge" "[]" no_options idle] l6
  have "currentRoutingType (snd (applyAutoRouting (replicate 6 plain_edge) [] no_options idle)) = Smart"
    by blast
  moreover
  from auto_routing_by_edge_count [of "replicate 15 plain_edge" "[]" no_options idle] l15
  have "currentRoutingType (snd (applyAutoRouting (replicate 15 plain_edge) [] no_options idle)) = Smart"
    by blast
  moreover
  from auto_routing_by_edge_count [of "replicate 16 plain_edge" "[]" no_options idle] l16
  have "currentRoutingType (snd (applyAutoRouting (replicate 16 plain_edge) [] no_options idle))
          = Orthogonal"
    by blast
  ultimately show ?thesis
    by blast
qed

end
